theory Spec2Isabelle
  imports Main
begin

section \<open>The graph adapter factory (src/knowledge/adapters/factory.py)\<close>

text \<open>
  The factory is a Python class with one piece of class-level state, the dictionary
  \<^verbatim>\<open>_registry\<close>, and six class methods. The adapters, the knowledge-base manager, the
  label helper \<^verbatim>\<open>derive_kb_node_label\<close> and the process environment are collaborators
  whose code is not part of the file: they are parameters of the model.

  A Python \<^verbatim>\<open>str\<close> is modelled by the \<open>string\<close> of its UTF-8 bytes. The factory only
  compares strings, uses them as dictionary keys and concatenates them, and UTF-8 encoding
  is injective and commutes with concatenation; emptiness is the same on both sides.
\<close>

subsection \<open>Python values, errors and collaborators\<close>

text \<open>The classes that can sit in the registry: the two built-in ones and any other.\<close>

datatype adapter_class = UploadGraphAdapter | LightRAGGraphAdapter | OtherAdapter nat

text \<open>
  The Python objects the factory handles as data: what a caller stores in the registry,
  what is passed as a keyword argument, and what the manager's method returns. An opaque
  object \<open>PyObj\<close> is a plain instance (no \<^verbatim>\<open>__bool__\<close>, no \<^verbatim>\<open>__call__\<close>).
\<close>

datatype pyval =
    PyNone
  | PyBool bool
  | PyInt int
  | PyStr string
  | PyDict "(string \<times> pyval) list"
  | PyObj nat
  | PyClass adapter_class

text \<open>Python's truth test, as applied by \<^verbatim>\<open>if x\<close> and \<^verbatim>\<open>not x\<close>.\<close>

fun truthy :: "pyval \<Rightarrow> bool" where
  "truthy PyNone = False"
| "truthy (PyBool b) = b"
| "truthy (PyInt n) = (n \<noteq> 0)"
| "truthy (PyStr s) = (s \<noteq> [])"
| "truthy (PyDict kvs) = (kvs \<noteq> [])"
| "truthy (PyObj n) = True"
| "truthy (PyClass c) = True"

text \<open>
  Exceptions. \<open>ValueError\<close> is the one the factory raises itself; \<open>TypeError\<close> is what
  the interpreter raises when a value that is not callable is called; \<open>OtherError\<close>
  stands for anything a collaborator raises.
\<close>

datatype error = ValueError string | TypeError string | OtherError string

type_synonym kwargs = "(string \<times> pyval) list"

type_synonym registry = "string \<rightharpoonup> pyval"

text \<open>
  A constructor call \<^verbatim>\<open>C(**kwargs)\<close> runs code outside the file: it is the parameter
  \<open>construct\<close>, which yields an adapter instance or raises.
\<close>

type_synonym 'a constructors = "adapter_class \<Rightarrow> kwargs \<Rightarrow> error + 'a"

text \<open>
  The knowledge-base manager, as far as the factory looks at it: its truth value, and the
  bound method \<^verbatim>\<open>is_lightrag_database\<close> when \<^verbatim>\<open>hasattr\<close> finds one (\<open>None\<close> otherwise).
\<close>

record manager =
  mgr_truthy :: bool
  is_lightrag_database :: "(string \<Rightarrow> error + pyval) option"

text \<open>\<^verbatim>\<open>d.get(k)\<close> and \<^verbatim>\<open>os.environ.get(k, default)\<close>.\<close>

definition dict_get :: "registry \<Rightarrow> string \<Rightarrow> pyval" where
  "dict_get d k = (case d k of None \<Rightarrow> PyNone | Some v \<Rightarrow> v)"

definition environ_get :: "(string \<rightharpoonup> string) \<Rightarrow> string \<Rightarrow> string \<Rightarrow> string" where
  "environ_get environ k dflt = (case environ k of None \<Rightarrow> dflt | Some v \<Rightarrow> v)"

text \<open>Calling a value with keyword arguments: only a class is callable here.\<close>

fun py_call :: "'a constructors \<Rightarrow> pyval \<Rightarrow> kwargs \<Rightarrow> error + 'a" where
  "py_call construct (PyClass c) kw = construct c kw"
| "py_call construct v kw = Inl (TypeError ''object is not callable'')"

subsection \<open>The factory\<close>

text \<open>The class attribute \<^verbatim>\<open>_registry\<close> as the class body initialises it.\<close>

definition initial_registry :: registry where
  "initial_registry =
     [''upload'' \<mapsto> PyClass UploadGraphAdapter, ''lightrag'' \<mapsto> PyClass LightRAGGraphAdapter]"

text \<open>\<^verbatim>\<open>cls._registry[graph_type] = adapter_class\<close>\<close>

definition register :: "registry \<Rightarrow> string \<Rightarrow> pyval \<Rightarrow> registry" where
  "register reg graph_type adapter_class = reg(graph_type \<mapsto> adapter_class)"

definition create_adapter ::
  "'a constructors \<Rightarrow> registry \<Rightarrow> string \<Rightarrow> kwargs \<Rightarrow> error + 'a" where
  "create_adapter construct reg graph_type kw =
     (let adapter_class = dict_get reg graph_type in
      if \<not> truthy adapter_class
      then Inl (ValueError (''Unknown graph type: '' @ graph_type))
      else py_call construct adapter_class kw)"

text \<open>The two descriptions are Chinese text; they are written as their UTF-8 bytes.\<close>

definition upload_description :: string where
  "upload_description =
     [CHR 0xE4, CHR 0xB8, CHR 0x8A, CHR 0xE4, CHR 0xBC, CHR 0xA0, CHR 0xE6, CHR 0x96, CHR 0x87,
      CHR 0xE4, CHR 0xBB, CHR 0xB6, CHR 0xE5, CHR 0x9B, CHR 0xBE, CHR 0xE8, CHR 0xB0, CHR 0xB1]
     @ '' - '' @ [CHR 0xE6, CHR 0x94, CHR 0xAF, CHR 0xE6, CHR 0x8C, CHR 0x81] @ ''embedding''
     @ [CHR 0xE5, CHR 0x92, CHR 0x8C, CHR 0xE9, CHR 0x98, CHR 0x88, CHR 0xE5, CHR 0x80, CHR 0xBC,
        CHR 0xE6, CHR 0x9F, CHR 0xA5, CHR 0xE8, CHR 0xAF, CHR 0xA2]"

definition lightrag_description :: string where
  "lightrag_description =
     ''LightRAG''
     @ [CHR 0xE7, CHR 0x9F, CHR 0xA5, CHR 0xE8, CHR 0xAF, CHR 0x86, CHR 0xE5, CHR 0x9B, CHR 0xBE,
        CHR 0xE8, CHR 0xB0, CHR 0xB1]
     @ '' - '' @ [CHR 0xE5, CHR 0x9F, CHR 0xBA, CHR 0xE4, CHR 0xBA, CHR 0x8E] @ ''kb_id''
     @ [CHR 0xE6, CHR 0xA0, CHR 0x87, CHR 0xE7, CHR 0xAD, CHR 0xBE, CHR 0xE7, CHR 0x9A, CHR 0x84,
        CHR 0xE5, CHR 0x9B, CHR 0xBE, CHR 0xE8, CHR 0xB0, CHR 0xB1]"

text \<open>
  \<^verbatim>\<open>get_supported_types\<close> receives the class (here: its registry) and returns a fresh
  dictionary literal, kept as the list of its items.
\<close>

definition get_supported_types :: "registry \<Rightarrow> (string \<times> string) list" where
  "get_supported_types reg =
     [(''upload'', upload_description), (''lightrag'', lightrag_description)]"

definition detect_graph_type :: "string \<Rightarrow> manager option \<Rightarrow> error + string" where
  "detect_graph_type db_id knowledge_base_manager =
     (case knowledge_base_manager of
        None \<Rightarrow> Inr ''upload''
      | Some m \<Rightarrow>
          if mgr_truthy m then
            (case is_lightrag_database m of
               None \<Rightarrow> Inr ''upload''
             | Some method \<Rightarrow>
                 (case method db_id of
                    Inl e \<Rightarrow> Inl e
                  | Inr answer \<Rightarrow> if truthy answer then Inr ''lightrag'' else Inr ''upload''))
          else Inr ''upload'')"

text \<open>
  \<open>environ\<close> is \<^verbatim>\<open>os.environ\<close> and \<open>derive_kb_node_label\<close> the helper imported from
  \<^verbatim>\<open>src.knowledge.utils.kb_utils\<close>. Python evaluates the arguments of the call, and so the
  helper, before \<^verbatim>\<open>create_adapter\<close> runs.
\<close>

definition create_adapter_by_db_id ::
  "'a constructors \<Rightarrow> (string \<rightharpoonup> string) \<Rightarrow> (string \<Rightarrow> error + pyval) \<Rightarrow> registry \<Rightarrow>
   string \<Rightarrow> manager option \<Rightarrow> pyval \<Rightarrow> error + 'a" where
  "create_adapter_by_db_id construct environ derive_kb_node_label reg
     db_id knowledge_base_manager graph_db_instance =
     (case detect_graph_type db_id knowledge_base_manager of
        Inl e \<Rightarrow> Inl e
      | Inr graph_type \<Rightarrow>
          if graph_type = ''lightrag''
          then create_adapter construct reg ''lightrag''
                 [(''config'', PyDict [(''kb_id'', PyStr db_id)])]
          else
            (case derive_kb_node_label db_id of
               Inl e \<Rightarrow> Inl e
             | Inr label \<Rightarrow>
                 create_adapter construct reg ''upload''
                   [(''graph_db_instance'', graph_db_instance),
                    (''config'', PyDict
                       [(''kgdb_name'', PyStr (environ_get environ ''NEO4J_DATABASE'' ''neo4j'')),
                        (''kb_label'', label),
                        (''kb_id'', PyStr db_id)])]))"

definition create_adapter_for_db_id ::
  "'a constructors \<Rightarrow> (string \<rightharpoonup> string) \<Rightarrow> (string \<Rightarrow> error + pyval) \<Rightarrow> registry \<Rightarrow>
   string \<Rightarrow> manager option \<Rightarrow> pyval \<Rightarrow> error + 'a" where
  "create_adapter_for_db_id construct environ derive_kb_node_label reg
     db_id knowledge_base_manager graph_db_instance =
     create_adapter_by_db_id construct environ derive_kb_node_label reg
       db_id knowledge_base_manager graph_db_instance"

subsection \<open>Calls on the factory as steps on the registry\<close>

text \<open>
  The public operations with their arguments, and what a call returns. \<open>exec_call\<close> runs
  one call on the current registry and gives the returned value with the registry as the
  call leaves it: only \<^verbatim>\<open>register\<close> assigns to \<^verbatim>\<open>_registry\<close>. The collaborators are
  functions of their arguments; they do not reach back into the factory.
\<close>

datatype call =
    Register string pyval
  | CreateAdapter string kwargs
  | GetSupportedTypes
  | DetectGraphType string "manager option"
  | CreateAdapterByDbId string "manager option" pyval
  | CreateAdapterForDbId string "manager option" pyval

datatype 'a returned =
    RetNone
  | RetAdapter "error + 'a"
  | RetTypes "(string \<times> string) list"
  | RetTag "error + string"

fun exec_call ::
  "'a constructors \<Rightarrow> (string \<rightharpoonup> string) \<Rightarrow> (string \<Rightarrow> error + pyval) \<Rightarrow> registry \<Rightarrow>
   call \<Rightarrow> 'a returned \<times> registry" where
  "exec_call construct environ derive reg (Register t v) = (RetNone, register reg t v)"
| "exec_call construct environ derive reg (CreateAdapter t kw) =
     (RetAdapter (create_adapter construct reg t kw), reg)"
| "exec_call construct environ derive reg GetSupportedTypes =
     (RetTypes (get_supported_types reg), reg)"
| "exec_call construct environ derive reg (DetectGraphType db_id mgr) =
     (RetTag (detect_graph_type db_id mgr), reg)"
| "exec_call construct environ derive reg (CreateAdapterByDbId db_id mgr g) =
     (RetAdapter (create_adapter_by_db_id construct environ derive reg db_id mgr g), reg)"
| "exec_call construct environ derive reg (CreateAdapterForDbId db_id mgr g) =
     (RetAdapter (create_adapter_for_db_id construct environ derive reg db_id mgr g), reg)"

fun exec_calls ::
  "'a constructors \<Rightarrow> (string \<rightharpoonup> string) \<Rightarrow> (string \<Rightarrow> error + pyval) \<Rightarrow> registry \<Rightarrow>
   call list \<Rightarrow> registry" where
  "exec_calls construct environ derive reg [] = reg"
| "exec_calls construct environ derive reg (c # cs) =
     exec_calls construct environ derive (snd (exec_call construct environ derive reg c)) cs"

section \<open>Properties\<close>

subsection \<open>Creating an adapter for a registered tag\<close>

text \<open>
  C1. When the registry maps tag \<open>t\<close> to a constructor \<open>c\<close>, \<open>create_adapter t o\<close> is
  exactly the outcome of calling \<open>c\<close> with the keyword options \<open>o\<close>: the instance the
  constructor builds from \<open>o\<close>, with no option added, dropped or altered.
\<close>

theorem create_adapter_registered:
  "reg t = Some (PyClass c) \<Longrightarrow> create_adapter construct reg t kw = construct c kw"
  by (simp add: create_adapter_def dict_get_def)

theorem create_adapter_registered_witness:
  "initial_registry ''upload'' = Some (PyClass UploadGraphAdapter)
   \<and> create_adapter (\<lambda>c kw. Inr (c, kw)) initial_registry ''upload'' [(''k'', PyInt 1)]
       = Inr (UploadGraphAdapter, [(''k'', PyInt 1)])"
  using create_adapter_registered
    [where reg = initial_registry and t = "''upload''" and c = UploadGraphAdapter
       and construct = "\<lambda>c kw. Inr (c, kw)" and kw = "[(''k'', PyInt 1)]"]
  by (simp add: initial_registry_def)

subsection \<open>The unknown-type error\<close>

text \<open>
  C2. For a tag \<open>t\<close> that is not a key of the registry, \<open>create_adapter\<close> fails with the
  factory's one error (Python's \<open>ValueError\<close>), which carries \<open>t\<close> in its message. That is
  the only error the factory raises itself: whenever \<open>create_adapter\<close> fails, the error is
  either this one, or it is the very error that calling the registered value produced,
  handed on unchanged (nothing is caught or translated): for a truthy entry the outcome
  of \<open>create_adapter\<close> is the outcome of the call, success or failure. A failure of
  \<open>create_adapter_by_db_id\<close> is an error of \<open>create_adapter\<close> or one raised by the manager
  or by the label helper, again unchanged.
\<close>

theorem create_adapter_unknown_type:
  "(reg t = None \<longrightarrow>
      create_adapter construct reg t kw = Inl (ValueError (''Unknown graph type: '' @ t)))
   \<and> (create_adapter construct reg t kw = Inl e \<longrightarrow>
      e = ValueError (''Unknown graph type: '' @ t)
      \<or> (\<exists>v. reg t = Some v \<and> py_call construct v kw = Inl e))
   \<and> (\<forall>v. reg t = Some v \<and> truthy v \<longrightarrow>
      create_adapter construct reg t kw = py_call construct v kw)
   \<and> (create_adapter_by_db_id construct environ derive reg db_id mgr g = Inl e \<longrightarrow>
      detect_graph_type db_id mgr = Inl e \<or> derive db_id = Inl e
      \<or> (\<exists>t' kw'. create_adapter construct reg t' kw' = Inl e))"
proof (intro conjI impI allI)
  assume "reg t = None"
  then show "create_adapter construct reg t kw = Inl (ValueError (''Unknown graph type: '' @ t))"
    by (simp add: create_adapter_def dict_get_def)
next
  assume failed: "create_adapter construct reg t kw = Inl e"
  show "e = ValueError (''Unknown graph type: '' @ t)
        \<or> (\<exists>v. reg t = Some v \<and> py_call construct v kw = Inl e)"
  proof (cases "reg t")
    case None
    with failed show ?thesis
      by (simp add: create_adapter_def dict_get_def)
  next
    case (Some v)
    with failed show ?thesis
      by (cases "truthy v") (simp_all add: create_adapter_def dict_get_def)
  qed
next
  fix v
  assume "reg t = Some v \<and> truthy v"
  then show "create_adapter construct reg t kw = py_call construct v kw"
    by (simp add: create_adapter_def dict_get_def)
next
  assume failed: "create_adapter_by_db_id construct environ derive reg db_id mgr g = Inl e"
  show "detect_graph_type db_id mgr = Inl e \<or> derive db_id = Inl e
        \<or> (\<exists>t' kw'. create_adapter construct reg t' kw' = Inl e)"
  proof (cases "detect_graph_type db_id mgr")
    case (Inl e')
    with failed show ?thesis
      by (simp add: create_adapter_by_db_id_def)
  next
    case (Inr graph_type)
    show ?thesis
    proof (cases "graph_type = ''lightrag''")
      case True
      with failed Inr have "create_adapter construct reg ''lightrag''
          [(''config'', PyDict [(''kb_id'', PyStr db_id)])] = Inl e"
        by (simp add: create_adapter_by_db_id_def)
      then show ?thesis by blast
    next
      case False
      show ?thesis
      proof (cases "derive db_id")
        case (Inl e')
        with failed Inr False show ?thesis
          by (simp add: create_adapter_by_db_id_def)
      next
        case (Inr label)
        with failed \<open>detect_graph_type db_id mgr = Inr graph_type\<close> False
        have "create_adapter construct reg ''upload''
                [(''graph_db_instance'', g),
                 (''config'', PyDict
                    [(''kgdb_name'', PyStr (environ_get environ ''NEO4J_DATABASE'' ''neo4j'')),
                     (''kb_label'', label),
                     (''kb_id'', PyStr db_id)])] = Inl e"
          by (simp add: create_adapter_by_db_id_def)
        then show ?thesis by blast
      qed
    qed
  qed
qed

theorem create_adapter_unknown_type_witness:
  "initial_registry ''__nonexistent__'' = None
   \<and> create_adapter (\<lambda>c kw. Inr (c, kw)) initial_registry ''__nonexistent__'' []
       = Inl (ValueError ''Unknown graph type: __nonexistent__'')"
proof -
  have absent: "initial_registry ''__nonexistent__'' = None"
    by (simp add: initial_registry_def)
  note unknown = create_adapter_unknown_type
    [where reg = initial_registry and t = "''__nonexistent__''"
       and construct = "\<lambda>c kw. Inr (c, kw)" and kw = "[]"
       and e = "ValueError ''Unknown graph type: __nonexistent__''"]
  have "create_adapter (\<lambda>c kw. Inr (c, kw)) initial_registry ''__nonexistent__'' []
       = Inl (ValueError (''Unknown graph type: '' @ ''__nonexistent__''))"
    by (rule unknown [THEN conjunct1, THEN mp, OF absent])
  then have "create_adapter (\<lambda>c kw. Inr (c, kw)) initial_registry ''__nonexistent__'' []
       = Inl (ValueError ''Unknown graph type: __nonexistent__'')"
    by simp
  with absent show ?thesis by (rule conjI)
qed

text \<open>
  C10. Once \<open>register\<close> has stored a falsy value (such as \<open>None\<close>) under tag \<open>t\<close>, the
  tag is a key of the registry and yet \<open>create_adapter t\<close> raises the unknown-type error
  for \<open>t\<close>: the test is on the truth value of what was looked up, not on membership.
\<close>

theorem create_adapter_falsy_entry:
  "\<not> truthy v \<Longrightarrow>
     t \<in> dom (register reg t v)
     \<and> create_adapter construct (register reg t v) t kw
         = Inl (ValueError (''Unknown graph type: '' @ t))"
  by (simp add: create_adapter_def dict_get_def register_def)

theorem create_adapter_falsy_entry_witness:
  "\<not> truthy PyNone
   \<and> ''upload'' \<in> dom (register initial_registry ''upload'' PyNone)
   \<and> create_adapter (\<lambda>c kw. Inr (c, kw)) (register initial_registry ''upload'' PyNone)
         ''upload'' [] = Inl (ValueError ''Unknown graph type: upload'')"
  using create_adapter_falsy_entry
    [where v = PyNone and t = "''upload''" and reg = initial_registry
       and construct = "\<lambda>c kw. Inr (c, kw)" and kw = "[]"]
  by simp

subsection \<open>Registration overwrites\<close>

text \<open>
  C6. After \<open>register t C\<close> for a constructor \<open>C\<close>, \<open>create_adapter t o\<close> calls \<open>C\<close> with
  \<open>o\<close>, whatever \<open>t\<close> was mapped to before, the built-in entries included.
\<close>

theorem register_then_create:
  "create_adapter construct (register reg t (PyClass c)) t kw = construct c kw"
  by (simp add: create_adapter_def dict_get_def register_def)

theorem register_then_create_witness:
  "create_adapter (\<lambda>c kw. Inr (c, kw))
     (register initial_registry ''upload'' (PyClass (OtherAdapter 7))) ''upload''
     [(''x'', PyNone)] = Inr (OtherAdapter 7, [(''x'', PyNone)])"
  using register_then_create
    [where construct = "\<lambda>c kw. Inr (c, kw)" and reg = initial_registry
       and t = "''upload''" and c = "OtherAdapter 7" and kw = "[(''x'', PyNone)]"]
  by simp

subsection \<open>Detecting the graph type\<close>

text \<open>
  C3, as the claim states it, fails on two inputs. A manager whose
  \<^verbatim>\<open>is_lightrag_database\<close> raises makes \<open>detect_graph_type\<close> raise too, so no tag is
  returned; and a manager object that is falsy is never asked, so the result is
  \<open>upload\<close> even though its method would answer true.
\<close>

theorem detect_graph_type_total_counterexample:
  "detect_graph_type ''kb-1''
     (Some \<lparr>mgr_truthy = True, is_lightrag_database = Some (Inl \<circ> OtherError)\<rparr>)
     = Inl (OtherError ''kb-1'')
   \<and> (Inr \<circ> PyBool \<circ> (=) ''kb-1'') ''kb-1'' = Inr (PyBool True)
   \<and> detect_graph_type ''kb-1''
       (Some \<lparr>mgr_truthy = False, is_lightrag_database = Some (Inr \<circ> PyBool \<circ> (=) ''kb-1'')\<rparr>)
       = Inr ''upload''"
  by (simp add: detect_graph_type_def)

text \<open>
  C3, amended. \<open>detect_graph_type\<close> returns \<open>lightrag\<close> exactly when a truthy manager is
  supplied that exposes \<^verbatim>\<open>is_lightrag_database\<close> and the call for the identifier returns a
  truthy value. It raises exactly when that call is made and raises, with the same
  exception. In every other case (no manager, a falsy manager, a manager without the
  method, a falsy answer) it returns \<open>upload\<close>. So whenever it returns, the tag is one of
  the two.
\<close>

theorem detect_graph_type_cases:
  "(detect_graph_type db_id mgr = Inr ''lightrag'' \<longleftrightarrow>
      (\<exists>m method answer. mgr = Some m \<and> mgr_truthy m \<and> is_lightrag_database m = Some method
          \<and> method db_id = Inr answer \<and> truthy answer))
   \<and> (detect_graph_type db_id mgr = Inl e \<longleftrightarrow>
      (\<exists>m method. mgr = Some m \<and> mgr_truthy m \<and> is_lightrag_database m = Some method
          \<and> method db_id = Inl e))
   \<and> (detect_graph_type db_id mgr \<noteq> Inr ''lightrag''
        \<and> (\<forall>e'. detect_graph_type db_id mgr \<noteq> Inl e')
      \<longrightarrow> detect_graph_type db_id mgr = Inr ''upload'')
   \<and> (detect_graph_type db_id mgr = Inr tag \<longrightarrow> tag = ''lightrag'' \<or> tag = ''upload'')"
proof (intro conjI)
  show "detect_graph_type db_id mgr = Inr ''lightrag'' \<longleftrightarrow>
      (\<exists>m method answer. mgr = Some m \<and> mgr_truthy m \<and> is_lightrag_database m = Some method
          \<and> method db_id = Inr answer \<and> truthy answer)"
    by (auto simp: detect_graph_type_def split: option.splits sum.splits if_splits)
next
  show "detect_graph_type db_id mgr = Inl e \<longleftrightarrow>
      (\<exists>m method. mgr = Some m \<and> mgr_truthy m \<and> is_lightrag_database m = Some method
          \<and> method db_id = Inl e)"
    by (auto simp: detect_graph_type_def split: option.splits sum.splits if_splits)
next
  show "detect_graph_type db_id mgr \<noteq> Inr ''lightrag''
        \<and> (\<forall>e'. detect_graph_type db_id mgr \<noteq> Inl e')
      \<longrightarrow> detect_graph_type db_id mgr = Inr ''upload''"
    by (auto simp: detect_graph_type_def split: option.splits sum.splits if_splits)
next
  show "detect_graph_type db_id mgr = Inr tag \<longrightarrow> tag = ''lightrag'' \<or> tag = ''upload''"
    by (auto simp: detect_graph_type_def split: option.splits sum.splits if_splits)
qed

theorem detect_graph_type_cases_witness:
  "detect_graph_type ''kb-lr''
     (Some \<lparr>mgr_truthy = True, is_lightrag_database = Some (Inr \<circ> PyBool \<circ> (=) ''kb-lr'')\<rparr>)
     = Inr ''lightrag''
   \<and> (\<exists>m method answer.
         Some \<lparr>mgr_truthy = True, is_lightrag_database = Some (Inr \<circ> PyBool \<circ> (=) ''kb-lr'')\<rparr>
           = Some m
         \<and> mgr_truthy m \<and> is_lightrag_database m = Some method
         \<and> method ''kb-lr'' = Inr answer \<and> truthy answer)"
proof -
  have run: "detect_graph_type ''kb-lr''
     (Some \<lparr>mgr_truthy = True, is_lightrag_database = Some (Inr \<circ> PyBool \<circ> (=) ''kb-lr'')\<rparr>)
     = Inr ''lightrag''"
    by (simp add: detect_graph_type_def)
  note cases = detect_graph_type_cases
    [where db_id = "''kb-lr''" and tag = "''lightrag''" and e = "OtherError []"
       and mgr = "Some \<lparr>mgr_truthy = True,
                        is_lightrag_database = Some (Inr \<circ> PyBool \<circ> (=) ''kb-lr'')\<rparr>"]
  have asked: "\<exists>m method answer.
         Some \<lparr>mgr_truthy = True, is_lightrag_database = Some (Inr \<circ> PyBool \<circ> (=) ''kb-lr'')\<rparr>
           = Some m
         \<and> mgr_truthy m \<and> is_lightrag_database m = Some method
         \<and> method ''kb-lr'' = Inr answer \<and> truthy answer"
    by (rule cases [THEN conjunct1, THEN iffD1, OF run])
  show ?thesis using run asked by (rule conjI)
qed

subsection \<open>Creating an adapter from a database id\<close>

text \<open>
  C4. When the detected type of the identifier is \<open>upload\<close> (and the label helper returns
  a label), \<open>create_adapter_by_db_id\<close> is the call of \<open>create_adapter\<close> with tag \<open>upload\<close>,
  the given \<open>graph_db_instance\<close>, and the config made of \<open>kgdb_name\<close> (the environment
  variable \<open>NEO4J_DATABASE\<close>, or \<open>neo4j\<close> when it is not set), \<open>kb_label\<close> (the derived
  label) and \<open>kb_id\<close> (the identifier).
\<close>

theorem create_adapter_by_db_id_upload:
  "detect_graph_type db_id mgr = Inr ''upload'' \<Longrightarrow> derive db_id = Inr label \<Longrightarrow>
   create_adapter_by_db_id construct environ derive reg db_id mgr g =
     create_adapter construct reg ''upload''
       [(''graph_db_instance'', g),
        (''config'', PyDict
           [(''kgdb_name'',
               PyStr (case environ ''NEO4J_DATABASE'' of None \<Rightarrow> ''neo4j'' | Some v \<Rightarrow> v)),
            (''kb_label'', label),
            (''kb_id'', PyStr db_id)])]"
  by (simp add: create_adapter_by_db_id_def environ_get_def)

theorem create_adapter_by_db_id_upload_witness:
  "detect_graph_type ''kb-42'' None = Inr ''upload''
   \<and> (Inr \<circ> PyStr \<circ> (@) ''kb_'') ''kb-42'' = Inr (PyStr ''kb_kb-42'')
   \<and> create_adapter_by_db_id (\<lambda>c kw. Inr (c, kw)) [''NEO4J_DATABASE'' \<mapsto> ''mydb'']
       (Inr \<circ> PyStr \<circ> (@) ''kb_'') initial_registry ''kb-42'' None (PyObj 0)
     = Inr (UploadGraphAdapter,
         [(''graph_db_instance'', PyObj 0),
          (''config'', PyDict [(''kgdb_name'', PyStr ''mydb''),
             (''kb_label'', PyStr ''kb_kb-42''), (''kb_id'', PyStr ''kb-42'')])])
   \<and> create_adapter_by_db_id (\<lambda>c kw. Inr (c, kw)) Map.empty
       (Inr \<circ> PyStr \<circ> (@) ''kb_'') initial_registry ''kb-42'' None (PyObj 0)
     = Inr (UploadGraphAdapter,
         [(''graph_db_instance'', PyObj 0),
          (''config'', PyDict [(''kgdb_name'', PyStr ''neo4j''),
             (''kb_label'', PyStr ''kb_kb-42''), (''kb_id'', PyStr ''kb-42'')])])"
  using create_adapter_by_db_id_upload
    [where db_id = "''kb-42''" and mgr = None and derive = "Inr \<circ> PyStr \<circ> (@) ''kb_''"
       and label = "PyStr ''kb_kb-42''" and construct = "\<lambda>c kw. Inr (c, kw)"
       and environ = "[''NEO4J_DATABASE'' \<mapsto> ''mydb'']" and reg = initial_registry
       and g = "PyObj 0"]
    create_adapter_by_db_id_upload
    [where db_id = "''kb-42''" and mgr = None and derive = "Inr \<circ> PyStr \<circ> (@) ''kb_''"
       and label = "PyStr ''kb_kb-42''" and construct = "\<lambda>c kw. Inr (c, kw)"
       and environ = Map.empty and reg = initial_registry and g = "PyObj 0"]
  by (simp add: detect_graph_type_def create_adapter_def dict_get_def initial_registry_def)

text \<open>
  C5. When the detected type of the identifier is \<open>lightrag\<close>, \<open>create_adapter_by_db_id\<close> is
  the call of \<open>create_adapter\<close> with tag \<open>lightrag\<close> and the single keyword argument
  \<open>config = {kb_id: identifier}\<close>; with a constructor registered under \<open>lightrag\<close> that is
  the constructor's outcome on this one argument. \<open>graph_db_instance\<close> is not passed on:
  the outcome is the same for any two values of it.
\<close>

theorem create_adapter_by_db_id_lightrag:
  "detect_graph_type db_id mgr = Inr ''lightrag'' \<Longrightarrow>
   create_adapter_by_db_id construct environ derive reg db_id mgr g =
     create_adapter construct reg ''lightrag'' [(''config'', PyDict [(''kb_id'', PyStr db_id)])]
   \<and> (\<forall>c. reg ''lightrag'' = Some (PyClass c) \<longrightarrow>
        create_adapter_by_db_id construct environ derive reg db_id mgr g =
          construct c [(''config'', PyDict [(''kb_id'', PyStr db_id)])])
   \<and> create_adapter_by_db_id construct environ derive reg db_id mgr g =
       create_adapter_by_db_id construct environ derive reg db_id mgr g'"
  by (simp add: create_adapter_by_db_id_def create_adapter_def dict_get_def)

theorem create_adapter_by_db_id_lightrag_witness:
  "detect_graph_type ''kb-lr''
     (Some \<lparr>mgr_truthy = True, is_lightrag_database = Some (Inr \<circ> PyBool \<circ> (=) ''kb-lr'')\<rparr>)
     = Inr ''lightrag''
   \<and> initial_registry ''lightrag'' = Some (PyClass LightRAGGraphAdapter)
   \<and> create_adapter_by_db_id (\<lambda>c kw. Inr (c, kw)) Map.empty (Inr \<circ> PyStr) initial_registry
       ''kb-lr''
       (Some \<lparr>mgr_truthy = True, is_lightrag_database = Some (Inr \<circ> PyBool \<circ> (=) ''kb-lr'')\<rparr>)
       (PyObj 0)
     = Inr (LightRAGGraphAdapter, [(''config'', PyDict [(''kb_id'', PyStr ''kb-lr'')])])"
  using create_adapter_by_db_id_lightrag
    [where db_id = "''kb-lr''" and construct = "\<lambda>c kw. Inr (c, kw)" and environ = Map.empty
       and derive = "Inr \<circ> PyStr" and reg = initial_registry and g = "PyObj 0"
       and g' = "PyObj 0"
       and mgr = "Some \<lparr>mgr_truthy = True,
                        is_lightrag_database = Some (Inr \<circ> PyBool \<circ> (=) ''kb-lr'')\<rparr>"]
  by (simp add: detect_graph_type_def initial_registry_def create_adapter_def dict_get_def)

text \<open>
  C8. \<open>create_adapter_for_db_id\<close> and \<open>create_adapter_by_db_id\<close> agree on every identifier,
  manager and graph database instance (in every registry and environment): same adapter,
  same error.
\<close>

theorem create_adapter_for_db_id_delegates:
  "create_adapter_for_db_id construct environ derive reg db_id mgr g =
   create_adapter_by_db_id construct environ derive reg db_id mgr g"
  by (simp add: create_adapter_for_db_id_def)

subsection \<open>The supported types\<close>

text \<open>
  C7. \<open>get_supported_types\<close> describes exactly the tags \<open>upload\<close> and \<open>lightrag\<close>, each
  with a non-empty description, and returns the same for every state of the registry, so
  also after any call of \<open>register\<close>: a tag registered later is not described.
\<close>

theorem get_supported_types_static:
  "(\<exists>d. map_of (get_supported_types reg) ''upload'' = Some d \<and> d \<noteq> [])
   \<and> (\<exists>d. map_of (get_supported_types reg) ''lightrag'' = Some d \<and> d \<noteq> [])
   \<and> get_supported_types (register reg t v) = get_supported_types reg
   \<and> get_supported_types reg = get_supported_types reg'
   \<and> dom (map_of (get_supported_types (register reg t v))) = {''upload'', ''lightrag''}"
  by (auto simp: get_supported_types_def upload_description_def lightrag_description_def)

subsection \<open>The built-in keys stay in the registry\<close>

lemma exec_call_keeps_keys:
  "dom reg \<subseteq> dom (snd (exec_call construct environ derive reg c))"
  by (cases c) (auto simp: register_def)

lemma exec_calls_keeps_keys:
  "dom reg \<subseteq> dom (exec_calls construct environ derive reg cs)"
proof (induction cs arbitrary: reg)
  case Nil
  show ?case by simp
next
  case (Cons c cs)
  have "dom reg \<subseteq> dom (snd (exec_call construct environ derive reg c))"
    by (rule exec_call_keeps_keys)
  also have "\<dots> \<subseteq> dom (exec_calls construct environ derive
                           (snd (exec_call construct environ derive reg c)) cs)"
    by (rule Cons.IH)
  finally show ?case by simp
qed

text \<open>
  C9. The registry starts with the keys \<open>upload\<close> and \<open>lightrag\<close>, no call of any of the
  six operations removes a key, and so after every sequence of calls the keys of the
  registry still include both.
\<close>

theorem registry_keeps_builtin_keys:
  "{''upload'', ''lightrag''} \<subseteq> dom initial_registry
   \<and> dom reg \<subseteq> dom (snd (exec_call construct environ derive reg c))
   \<and> {''upload'', ''lightrag''} \<subseteq> dom (exec_calls construct environ derive initial_registry cs)"
proof (intro conjI)
  show init: "{''upload'', ''lightrag''} \<subseteq> dom initial_registry"
    by (simp add: initial_registry_def)
  show "dom reg \<subseteq> dom (snd (exec_call construct environ derive reg c))"
    by (rule exec_call_keeps_keys)
  show "{''upload'', ''lightrag''} \<subseteq> dom (exec_calls construct environ derive initial_registry cs)"
    using init exec_calls_keeps_keys [of initial_registry construct environ derive cs]
    by (rule subset_trans)
qed

theorem registry_keeps_builtin_keys_witness:
  "{''upload'', ''lightrag''} \<subseteq>
     dom (exec_calls (\<lambda>c kw. Inr (c, kw)) Map.empty (Inr \<circ> PyStr) initial_registry
            [Register ''upload'' PyNone, CreateAdapter ''upload'' [],
             Register ''custom'' (PyClass (OtherAdapter 1)), GetSupportedTypes,
             DetectGraphType ''kb-42'' None, CreateAdapterByDbId ''kb-42'' None PyNone,
             CreateAdapterForDbId ''kb-42'' None PyNone])"
  using registry_keeps_builtin_keys
    [where construct = "\<lambda>c kw. Inr (c, kw)" and environ = Map.empty
       and derive = "Inr \<circ> PyStr" and reg = initial_registry and c = GetSupportedTypes
       and cs = "[Register ''upload'' PyNone, CreateAdapter ''upload'' [],
             Register ''custom'' (PyClass (OtherAdapter 1)), GetSupportedTypes,
             DetectGraphType ''kb-42'' None, CreateAdapterByDbId ''kb-42'' None PyNone,
             CreateAdapterForDbId ''kb-42'' None PyNone]"]
  by simp

end
